theory Spec2Isabelle
  imports Complex_Main
begin

section \<open>The tax burden calculator: data model\<close>

text \<open>
  The calculation core (\<^verbatim>\<open>app/calculator.py\<close>) works on Python floats. They are
  modelled as the reals: every arithmetic step is the exact one, no rounding happens
  between steps, and the special values (NaN, the infinities, the negative zero) do
  not exist. The decimal constants of the source (\<^verbatim>\<open>0.33\<close>, \<^verbatim>\<open>0.04\<close>, ...) are the
  rationals they denote. A later section repeats the calculation in double precision,
  with the rounding of every operation, for the one property that depends on it.
\<close>

datatype py_error = ZeroDivisionError | ValueError | ValidationError

record Inputs =
  turnover_total :: real
  gross_profit :: real
  turnover_aggregator :: real
  rent :: real
  subrent :: real
  electricity :: real
  other_utilities :: real
  payroll_total :: real
  white_payroll_override :: "real option"
  office_supplies :: real
  other_purchases_outside_opticom :: real
  write_offs :: real
  meal_compensation :: real
  other_write_offs :: real
  security :: real
  internet :: real
  maintenance :: real
  other_repairs :: real
  cash_service :: real
  mobile_connection :: real
  bank_services :: real
  uniform :: real
  fiscal_device :: real
  neo_service :: real
  garbage_cleaning :: real
  disinfection :: real
  promo_materials :: real
  inventory_result :: real

record Derived =
  royalty :: real
  white_payroll :: real
  aggregator_commission :: real
  fixed_insurance :: real
  acquiring :: real

record Results =
  inputs :: Inputs
  derived :: Derived
  expenses :: real
  profit_before_tax :: real
  margin :: "real option"
  profitability :: "real option"
  taxable_profit :: real
  ausn_tax :: real
  ndfl_tax :: real
  total_tax :: real
  tax_burden_vs_turnover :: "real option"
  tax_burden_vs_profit :: "real option"

section \<open>The derivation stage\<close>

definition ANNUAL_FIXED_INSURANCE_RUB :: real where
  "ANNUAL_FIXED_INSURANCE_RUB = 2900"

definition FIXED_INSURANCE_RUB :: real where
  "FIXED_INSURANCE_RUB = ANNUAL_FIXED_INSURANCE_RUB / 12"

definition compute_white_payroll :: "real \<Rightarrow> real option \<Rightarrow> real" where
  "compute_white_payroll p ov =
     (case ov of
        Some v \<Rightarrow> if v > 0 then v else p * 0.33
      | None \<Rightarrow> p * 0.33)"

definition derive_values :: "Inputs \<Rightarrow> Derived" where
  "derive_values inp =
     \<lparr> royalty = turnover_total inp * 0.04,
       white_payroll = compute_white_payroll (payroll_total inp) (white_payroll_override inp),
       aggregator_commission = turnover_aggregator inp * 0.35,
       fixed_insurance = FIXED_INSURANCE_RUB,
       acquiring = (turnover_total inp - turnover_aggregator inp) * 0.01 * 0.95 \<rparr>"

section \<open>The aggregation stage\<close>

definition calculate_expenses :: "Inputs \<Rightarrow> Derived \<Rightarrow> real" where
  "calculate_expenses inp d =
     rent inp
     + subrent inp
     + electricity inp
     + other_utilities inp
     + payroll_total inp
     + royalty d
     + aggregator_commission d
     + fixed_insurance d
     + acquiring d
     + office_supplies inp
     + other_purchases_outside_opticom inp
     + write_offs inp
     + meal_compensation inp
     + other_write_offs inp
     + security inp
     + internet inp
     + maintenance inp
     + other_repairs inp
     + cash_service inp
     + mobile_connection inp
     + bank_services inp
     + uniform inp
     + fiscal_device inp
     + neo_service inp
     + garbage_cleaning inp
     + disinfection inp
     + promo_materials inp
     + inventory_result inp"

definition calculate_taxable_profit :: "Inputs \<Rightarrow> Derived \<Rightarrow> real" where
  "calculate_taxable_profit inp d =
     (let gp = gross_profit inp;
          group_a = rent inp + subrent inp + electricity inp + other_utilities inp + royalty d;
          group_b =
            white_payroll d
            + aggregator_commission d
            + fixed_insurance d
            + acquiring d
            + office_supplies inp
            + other_purchases_outside_opticom inp
            + write_offs inp
            + meal_compensation inp
            + other_write_offs inp;
          group_c =
            security inp
            + internet inp
            + maintenance inp
            + other_repairs inp
            + cash_service inp
            + mobile_connection inp
            + bank_services inp
            + uniform inp
            + fiscal_device inp
            + neo_service inp
            + garbage_cleaning inp
            + disinfection inp
            + promo_materials inp
            + inventory_result inp
      in gp - group_a - group_b - group_c)"

text \<open>
  Python's \<^verbatim>\<open>a / b\<close> on floats raises \<^verbatim>\<open>ZeroDivisionError\<close> when \<^verbatim>\<open>b\<close> is zero;
  HOL's division would return \<open>0\<close> there, so the failure is a branch of the model.
\<close>

definition truediv :: "real \<Rightarrow> real \<Rightarrow> py_error + real" where
  "truediv a b = (if b = 0 then Inl ZeroDivisionError else Inr (a / b))"

text \<open>The conditional expression \<^verbatim>\<open>(a / b) if c else None\<close>.\<close>

definition div_if :: "bool \<Rightarrow> real \<Rightarrow> real \<Rightarrow> py_error + real option" where
  "div_if c a b =
     (if c then (case truediv a b of Inl e \<Rightarrow> Inl e | Inr q \<Rightarrow> Inr (Some q))
      else Inr None)"

text \<open>Python's \<^verbatim>\<open>max(a, b)\<close> keeps the first argument unless the second is greater.\<close>

definition py_max :: "real \<Rightarrow> real \<Rightarrow> real" where
  "py_max a b = (if b > a then b else a)"

definition bind_err :: "py_error + 'a \<Rightarrow> ('a \<Rightarrow> py_error + 'b) \<Rightarrow> py_error + 'b" where
  "bind_err m f = (case m of Inl e \<Rightarrow> Inl e | Inr x \<Rightarrow> f x)"

definition calculate_all :: "Inputs \<Rightarrow> py_error + Results" where
  "calculate_all inp =
     (let d = derive_values inp;
          expenses_v = calculate_expenses inp d;
          profit_before_tax_v = gross_profit inp - expenses_v
      in
      bind_err (div_if (turnover_total inp > 0) (gross_profit inp) (turnover_total inp))
        (\<lambda>margin_v.
      bind_err (div_if (turnover_total inp > 0) profit_before_tax_v (turnover_total inp))
        (\<lambda>profitability_v.
      let taxable_profit_v = calculate_taxable_profit inp d;
          ausn_tax_v = py_max (taxable_profit_v * 0.20) (turnover_total inp * 0.03);
          ndfl_tax_v = white_payroll d * 0.13;
          total_tax_v = ausn_tax_v + ndfl_tax_v + fixed_insurance d
      in
      bind_err (div_if (turnover_total inp > 0) total_tax_v (turnover_total inp))
        (\<lambda>tax_burden_vs_turnover_v.
      bind_err (div_if (profit_before_tax_v > 0) total_tax_v profit_before_tax_v)
        (\<lambda>tax_burden_vs_profit_v.
      Inr \<lparr> inputs = inp,
            derived = d,
            expenses = expenses_v,
            profit_before_tax = profit_before_tax_v,
            margin = margin_v,
            profitability = profitability_v,
            taxable_profit = taxable_profit_v,
            ausn_tax = ausn_tax_v,
            ndfl_tax = ndfl_tax_v,
            total_tax = total_tax_v,
            tax_burden_vs_turnover = tax_burden_vs_turnover_v,
            tax_burden_vs_profit = tax_burden_vs_profit_v \<rparr>)))))"

text \<open>The two inputs of the reference tests (\<^verbatim>\<open>tests/test_calculator.py\<close>).\<close>

definition scenario_a :: Inputs where
  "scenario_a =
     \<lparr> turnover_total = 1000000,
       gross_profit = 300000,
       turnover_aggregator = 200000,
       rent = 100000,
       subrent = 0,
       electricity = 10000,
       other_utilities = 5000,
       payroll_total = 200000,
       white_payroll_override = None,
       office_supplies = 3000,
       other_purchases_outside_opticom = 20000,
       write_offs = 2000,
       meal_compensation = 1000,
       other_write_offs = 1000,
       security = 5000,
       internet = 1000,
       maintenance = 2000,
       other_repairs = 0,
       cash_service = 1000,
       mobile_connection = 1000,
       bank_services = 2000,
       uniform = 1000,
       fiscal_device = 500,
       neo_service = 0,
       garbage_cleaning = 1000,
       disinfection = 500,
       promo_materials = 2000,
       inventory_result = 0 \<rparr>"

definition scenario_b :: Inputs where
  "scenario_b =
     \<lparr> turnover_total = 0,
       gross_profit = 10000,
       turnover_aggregator = 0,
       rent = 0,
       subrent = 0,
       electricity = 0,
       other_utilities = 0,
       payroll_total = 0,
       white_payroll_override = None,
       office_supplies = 0,
       other_purchases_outside_opticom = 0,
       write_offs = 0,
       meal_compensation = 0,
       other_write_offs = 0,
       security = 0,
       internet = 0,
       maintenance = 0,
       other_repairs = 0,
       cash_service = 0,
       mobile_connection = 0,
       bank_services = 0,
       uniform = 0,
       fiscal_device = 0,
       neo_service = 0,
       garbage_cleaning = 0,
       disinfection = 0,
       promo_materials = 0,
       inventory_result = 0 \<rparr>"

section \<open>Presentation formatting\<close>

text \<open>
  \<^verbatim>\<open>f"{value:,.2f}"\<close> on a finite float: the sign of a negative value, the integer
  part in decimal with a comma between groups of three digits counted from the right,
  a dot, and two fractional digits. The value is rounded to the nearest hundredth, a
  tie going to the even neighbour.
\<close>

definition round_half_even :: "real \<Rightarrow> int" where
  "round_half_even x =
     (let f = \<lfloor>x\<rfloor>; d = x - of_int f
      in if d < 1 / 2 then f
         else if d > 1 / 2 then f + 1
         else if even f then f else f + 1)"

definition digit_char :: "nat \<Rightarrow> char" where
  "digit_char d = ''0123456789'' ! (d mod 10)"

fun decimal_digits :: "nat \<Rightarrow> string" where
  "decimal_digits n =
     (if n < 10 then [digit_char n]
      else decimal_digits (n div 10) @ [digit_char (n mod 10)])"

fun group_rev :: "string \<Rightarrow> string" where
  "group_rev (a # b # c # d # rest) = a # b # c # CHR '','' # group_rev (d # rest)"
| "group_rev xs = xs"

definition group_thousands :: "string \<Rightarrow> string" where
  "group_thousands s = rev (group_rev (rev s))"

definition format_comma_2f :: "real \<Rightarrow> string" where
  "format_comma_2f v =
     (let n = nat (round_half_even (\<bar>v\<bar> * 100))
      in (if v < 0 then ''-'' else [])
         @ group_thousands (decimal_digits (n div 100))
         @ ''.''
         @ [digit_char ((n mod 100) div 10), digit_char (n mod 10)])"

text \<open>\<^verbatim>\<open>s.replace(a, b)\<close> for one-character \<^verbatim>\<open>a\<close> and \<^verbatim>\<open>b\<close>, and \<^verbatim>\<open>s.rstrip(cs)\<close>.\<close>

definition replace_char :: "char \<Rightarrow> char \<Rightarrow> string \<Rightarrow> string" where
  "replace_char a b s = map (\<lambda>c. if c = a then b else c) s"

definition rstrip :: "string \<Rightarrow> string \<Rightarrow> string" where
  "rstrip cs s = rev (dropWhile (\<lambda>c. c \<in> set cs) (rev s))"

definition format_money :: "real option \<Rightarrow> string" where
  "format_money v =
     (case v of
        None \<Rightarrow> ''-''
      | Some x \<Rightarrow>
          (let rounded = format_comma_2f x;
               rounded = replace_char (CHR '','') (CHR '' '') rounded
           in if CHR ''.'' \<in> set rounded then rstrip ''.'' (rstrip ''0'' rounded)
              else rounded))"

definition format_percent :: "real option \<Rightarrow> string" where
  "format_percent v =
     (case v of
        None \<Rightarrow> ''-''
      | Some x \<Rightarrow>
          (let percent = x * 100;
               txt = replace_char (CHR '','') (CHR '' '') (format_comma_2f percent);
               txt = rstrip ''.'' (rstrip ''0'' txt)
           in txt @ ''%''))"

section \<open>The validation layer\<close>

text \<open>
  \<^verbatim>\<open>app/schemas.py\<close> declares the form as a pydantic model and \<^verbatim>\<open>app/main.py\<close>
  builds a payload from the submitted form, validates it and calls the core. The
  payload holds, for every field of the model, \<^verbatim>\<open>None\<close>, a float, or the raw text
  that did not parse as a float.

  What pydantic does with a field is modelled as far as the source relies on it: a
  \<^verbatim>\<open>float\<close> field takes a number; \<^verbatim>\<open>ge=0\<close> refuses a number below zero; the
  validators of a field run after that, in the order of their declaration, each on
  the value the one before returned; a \<^verbatim>\<open>ValueError\<close> that leaves a validator
  fails the field; \<^verbatim>\<open>info.data\<close> holds the fields declared earlier that passed;
  and the model is built only when no field failed, a \<^verbatim>\<open>ValidationError\<close>
  being raised otherwise.
\<close>

datatype pval = PNone | PNum real | PStr string

type_synonym payload = "string \<Rightarrow> pval"

definition float_field :: "pval \<Rightarrow> py_error + real" where
  "float_field v = (case v of PNum x \<Rightarrow> Inr x | _ \<Rightarrow> Inl ValidationError)"

definition ge0 :: "real \<Rightarrow> py_error + real" where
  "ge0 x = (if x \<ge> 0 then Inr x else Inl ValidationError)"

definition float_field_ge0 :: "pval \<Rightarrow> py_error + real" where
  "float_field_ge0 v = bind_err (float_field v) ge0"

definition optional_float_field_ge0 :: "pval \<Rightarrow> py_error + real option" where
  "optional_float_field_ge0 v =
     (case v of
        PNone \<Rightarrow> Inr None
      | _ \<Rightarrow> bind_err (float_field_ge0 v) (\<lambda>x. Inr (Some x)))"

definition aggregator_not_negative :: "real \<Rightarrow> py_error + real" where
  "aggregator_not_negative v = (if v < 0 then Inl ValueError else Inr v)"

definition turnover_non_negative :: "real \<Rightarrow> py_error + real" where
  "turnover_non_negative v = (if v < 0 then Inl ValueError else Inr v)"

definition gross_profit_number :: "real \<Rightarrow> py_error + real" where
  "gross_profit_number v = Inr v"

text \<open>
  \<^verbatim>\<open>_aggregator_not_more_than_total\<close>: the comparison and the \<^verbatim>\<open>raise\<close> stand
  inside \<^verbatim>\<open>try\<close>, whose handler \<^verbatim>\<open>except Exception: pass\<close> catches the
  \<^verbatim>\<open>ValueError\<close> (a subclass of \<^verbatim>\<open>Exception\<close>); the function then returns
  \<^verbatim>\<open>v\<close>.
\<close>

definition aggregator_total_try :: "real \<Rightarrow> real option \<Rightarrow> py_error + unit" where
  "aggregator_total_try v total_v =
     (case total_v of
        Some t \<Rightarrow> if v > t then Inl ValueError else Inr ()
      | None \<Rightarrow> Inr ())"

definition aggregator_not_more_than_total ::
    "real \<Rightarrow> (string \<rightharpoonup> real) \<Rightarrow> py_error + real" where
  "aggregator_not_more_than_total v data =
     (let total_v = data ''turnover_total''
      in case aggregator_total_try v total_v of
           Inl e \<Rightarrow> Inr v
         | Inr u \<Rightarrow> Inr v)"

record CalcForm =
  turnover_total_form :: real
  gross_profit_form :: real
  turnover_aggregator_form :: real
  rent_form :: real
  subrent_form :: real
  electricity_form :: real
  other_utilities_form :: real
  payroll_total_form :: real
  white_payroll_override_form :: "real option"
  office_supplies_form :: real
  other_purchases_outside_opticom_form :: real
  write_offs_form :: real
  meal_compensation_form :: real
  other_write_offs_form :: real
  security_form :: real
  internet_form :: real
  maintenance_form :: real
  other_repairs_form :: real
  cash_service_form :: real
  mobile_connection_form :: real
  bank_services_form :: real
  uniform_form :: real
  fiscal_device_form :: real
  neo_service_form :: real
  garbage_cleaning_form :: real
  disinfection_form :: real
  promo_materials_form :: real
  inventory_result_form :: real

text \<open>A field that failed, for whatever reason, fails the model.\<close>

definition field_result :: "py_error + 'a \<Rightarrow> py_error + 'a" where
  "field_result r = (case r of Inl e \<Rightarrow> Inl ValidationError | Inr x \<Rightarrow> Inr x)"

definition data_with :: "string \<Rightarrow> py_error + real \<Rightarrow> (string \<rightharpoonup> real) \<Rightarrow> (string \<rightharpoonup> real)" where
  "data_with k r data = (case r of Inl e \<Rightarrow> data | Inr x \<Rightarrow> data(k \<mapsto> x))"

text \<open>\<^verbatim>\<open>CalcForm(**payload)\<close>: the fields in the order of their declaration.\<close>

definition validate_CalcForm :: "payload \<Rightarrow> py_error + CalcForm" where
  "validate_CalcForm p =
     (let r_total = bind_err (float_field_ge0 (p ''turnover_total'')) turnover_non_negative;
          r_gross = bind_err (float_field (p ''gross_profit'')) gross_profit_number;
          data = data_with ''gross_profit'' r_gross
                   (data_with ''turnover_total'' r_total Map.empty);
          r_aggr = bind_err
                     (bind_err (float_field_ge0 (p ''turnover_aggregator''))
                        aggregator_not_negative)
                     (\<lambda>v. aggregator_not_more_than_total v data)
      in
      bind_err (field_result r_total) (\<lambda>v_turnover_total.
      bind_err (field_result r_gross) (\<lambda>v_gross_profit.
      bind_err (field_result r_aggr) (\<lambda>v_turnover_aggregator.
      bind_err (float_field_ge0 (p ''rent'')) (\<lambda>v_rent.
      bind_err (float_field (p ''subrent'')) (\<lambda>v_subrent.
      bind_err (float_field_ge0 (p ''electricity'')) (\<lambda>v_electricity.
      bind_err (float_field_ge0 (p ''other_utilities'')) (\<lambda>v_other_utilities.
      bind_err (float_field_ge0 (p ''payroll_total'')) (\<lambda>v_payroll_total.
      bind_err (optional_float_field_ge0 (p ''white_payroll_override''))
        (\<lambda>v_white_payroll_override.
      bind_err (float_field_ge0 (p ''office_supplies'')) (\<lambda>v_office_supplies.
      bind_err (float_field_ge0 (p ''other_purchases_outside_opticom''))
        (\<lambda>v_other_purchases_outside_opticom.
      bind_err (float_field_ge0 (p ''write_offs'')) (\<lambda>v_write_offs.
      bind_err (float_field_ge0 (p ''meal_compensation'')) (\<lambda>v_meal_compensation.
      bind_err (float_field_ge0 (p ''other_write_offs'')) (\<lambda>v_other_write_offs.
      bind_err (float_field_ge0 (p ''security'')) (\<lambda>v_security.
      bind_err (float_field_ge0 (p ''internet'')) (\<lambda>v_internet.
      bind_err (float_field_ge0 (p ''maintenance'')) (\<lambda>v_maintenance.
      bind_err (float_field_ge0 (p ''other_repairs'')) (\<lambda>v_other_repairs.
      bind_err (float_field_ge0 (p ''cash_service'')) (\<lambda>v_cash_service.
      bind_err (float_field_ge0 (p ''mobile_connection'')) (\<lambda>v_mobile_connection.
      bind_err (float_field_ge0 (p ''bank_services'')) (\<lambda>v_bank_services.
      bind_err (float_field_ge0 (p ''uniform'')) (\<lambda>v_uniform.
      bind_err (float_field_ge0 (p ''fiscal_device'')) (\<lambda>v_fiscal_device.
      bind_err (float_field_ge0 (p ''neo_service'')) (\<lambda>v_neo_service.
      bind_err (float_field_ge0 (p ''garbage_cleaning'')) (\<lambda>v_garbage_cleaning.
      bind_err (float_field_ge0 (p ''disinfection'')) (\<lambda>v_disinfection.
      bind_err (float_field_ge0 (p ''promo_materials'')) (\<lambda>v_promo_materials.
      bind_err (float_field (p ''inventory_result'')) (\<lambda>v_inventory_result.
      Inr \<lparr> turnover_total_form = v_turnover_total,
            gross_profit_form = v_gross_profit,
            turnover_aggregator_form = v_turnover_aggregator,
            rent_form = v_rent,
            subrent_form = v_subrent,
            electricity_form = v_electricity,
            other_utilities_form = v_other_utilities,
            payroll_total_form = v_payroll_total,
            white_payroll_override_form = v_white_payroll_override,
            office_supplies_form = v_office_supplies,
            other_purchases_outside_opticom_form = v_other_purchases_outside_opticom,
            write_offs_form = v_write_offs,
            meal_compensation_form = v_meal_compensation,
            other_write_offs_form = v_other_write_offs,
            security_form = v_security,
            internet_form = v_internet,
            maintenance_form = v_maintenance,
            other_repairs_form = v_other_repairs,
            cash_service_form = v_cash_service,
            mobile_connection_form = v_mobile_connection,
            bank_services_form = v_bank_services,
            uniform_form = v_uniform,
            fiscal_device_form = v_fiscal_device,
            neo_service_form = v_neo_service,
            garbage_cleaning_form = v_garbage_cleaning,
            disinfection_form = v_disinfection,
            promo_materials_form = v_promo_materials,
            inventory_result_form = v_inventory_result \<rparr>
      )))))))))))))))))))))))))))))"

definition to_inputs :: "CalcForm \<Rightarrow> Inputs" where
  "to_inputs data =
     \<lparr> turnover_total = turnover_total_form data,
       gross_profit = gross_profit_form data,
       turnover_aggregator = turnover_aggregator_form data,
       rent = rent_form data,
       subrent = subrent_form data,
       electricity = electricity_form data,
       other_utilities = other_utilities_form data,
       payroll_total = payroll_total_form data,
       white_payroll_override = white_payroll_override_form data,
       office_supplies = office_supplies_form data,
       other_purchases_outside_opticom = other_purchases_outside_opticom_form data,
       write_offs = write_offs_form data,
       meal_compensation = meal_compensation_form data,
       other_write_offs = other_write_offs_form data,
       security = security_form data,
       internet = internet_form data,
       maintenance = maintenance_form data,
       other_repairs = other_repairs_form data,
       cash_service = cash_service_form data,
       mobile_connection = mobile_connection_form data,
       bank_services = bank_services_form data,
       uniform = uniform_form data,
       fiscal_device = fiscal_device_form data,
       neo_service = neo_service_form data,
       garbage_cleaning = garbage_cleaning_form data,
       disinfection = disinfection_form data,
       promo_materials = promo_materials_form data,
       inventory_result = inventory_result_form data \<rparr>"

text \<open>
  The handler of the form (\<^verbatim>\<open>calculate\<close> in \<^verbatim>\<open>app/main.py\<close>) from the payload
  on: \<open>None\<close> is the page with the validation errors and no results, the only
  exception the handler catches being \<^verbatim>\<open>ValidationError\<close>; \<open>Some r\<close> is the page
  with the results of the core, which has then been called on the inputs.
\<close>

definition calculate :: "payload \<Rightarrow> py_error + Results option" where
  "calculate p =
     (case validate_CalcForm p of
        Inl e \<Rightarrow> (if e = ValidationError then Inr None else Inl e)
      | Inr data \<Rightarrow>
          (case calculate_all (to_inputs data) of
             Inl e \<Rightarrow> (if e = ValidationError then Inr None else Inl e)
           | Inr r \<Rightarrow> Inr (Some r)))"

text \<open>
  The payload of a form that gives a turnover of 100, a gross profit of 0 and an
  aggregator turnover of 200, and leaves every other field empty.
\<close>

definition over_total_payload :: payload where
  "over_total_payload =
     (\<lambda>k. PNum 0)
       (''turnover_total'' := PNum 100,
        ''gross_profit'' := PNum 0,
        ''turnover_aggregator'' := PNum 200,
        ''white_payroll_override'' := PNone)"

section \<open>The calculation in double precision\<close>

text \<open>
  A Python float is an IEEE 754 double, and every arithmetic operation of the source
  returns the double nearest to the exact result, a tie going to the double whose last
  significand bit is zero. This section repeats the calculation with that rounding after
  every operation and at every decimal constant of the source. A double is represented
  by the real it denotes. The rounding covers the normal and the subnormal range; a
  result beyond the largest double (an overflow to infinity) is outside the model.
\<close>

fun bit_length :: "nat \<Rightarrow> nat" where
  "bit_length n = (if n = 0 then 0 else Suc (bit_length (n div 2)))"

text \<open>
  The binary exponent of a positive real \<open>y\<close>: the integer \<open>e\<close> with
  \<open>2 ^ e \<le> y < 2 ^ (e + 1)\<close>, read off the bit length of the integer part of \<open>y\<close>,
  or of \<open>1 / y\<close> when \<open>y\<close> is below one.
\<close>

definition binary_exponent :: "real \<Rightarrow> int" where
  "binary_exponent y =
     (if 1 \<le> y then int (bit_length (nat \<lfloor>y\<rfloor>)) - 1
      else - int (bit_length (nat (\<lceil>1 / y\<rceil> - 1))))"

text \<open>The spacing of the doubles of exponent \<open>e\<close>, which have 53 significand bits.\<close>

definition ulp_at :: "int \<Rightarrow> real" where
  "ulp_at e = (if 52 \<le> e then 2 ^ nat (e - 52) else 1 / 2 ^ nat (52 - e))"

definition round_double :: "real \<Rightarrow> real" where
  "round_double x =
     (if x = 0 then 0
      else let e = max (binary_exponent \<bar>x\<bar>) (- 1022); u = ulp_at e
           in of_int (round_half_even (x / u)) * u)"













section \<open>Properties of the calculation\<close>

lemma div_if_guarded:
  "div_if (b > 0) a b = Inr (if b > 0 then Some (a / b) else None)"
  by (simp add: div_if_def truediv_def)

lemma py_max_eq_max: "py_max a b = max a b"
  by (simp add: py_max_def max_def)

lemma calculate_all_returns:
  "calculate_all inp =
     Inr \<lparr> inputs = inp,
           derived = derive_values inp,
           expenses = calculate_expenses inp (derive_values inp),
           profit_before_tax = gross_profit inp - calculate_expenses inp (derive_values inp),
           margin =
             (if turnover_total inp > 0 then Some (gross_profit inp / turnover_total inp)
              else None),
           profitability =
             (if turnover_total inp > 0
              then Some ((gross_profit inp - calculate_expenses inp (derive_values inp))
                         / turnover_total inp)
              else None),
           taxable_profit = calculate_taxable_profit inp (derive_values inp),
           ausn_tax =
             max (calculate_taxable_profit inp (derive_values inp) * 0.20)
                 (turnover_total inp * 0.03),
           ndfl_tax = white_payroll (derive_values inp) * 0.13,
           total_tax =
             max (calculate_taxable_profit inp (derive_values inp) * 0.20)
                 (turnover_total inp * 0.03)
             + white_payroll (derive_values inp) * 0.13
             + fixed_insurance (derive_values inp),
           tax_burden_vs_turnover =
             (if turnover_total inp > 0
              then Some ((max (calculate_taxable_profit inp (derive_values inp) * 0.20)
                              (turnover_total inp * 0.03)
                          + white_payroll (derive_values inp) * 0.13
                          + fixed_insurance (derive_values inp))
                         / turnover_total inp)
              else None),
           tax_burden_vs_profit =
             (if gross_profit inp - calculate_expenses inp (derive_values inp) > 0
              then Some ((max (calculate_taxable_profit inp (derive_values inp) * 0.20)
                              (turnover_total inp * 0.03)
                          + white_payroll (derive_values inp) * 0.13
                          + fixed_insurance (derive_values inp))
                         / (gross_profit inp - calculate_expenses inp (derive_values inp)))
              else None) \<rparr>"
  unfolding calculate_all_def Let_def div_if_guarded py_max_eq_max bind_err_def
  by simp

lemma scenario_a_taxable_profit:
  "calculate_taxable_profit scenario_a (derive_values scenario_a) = - (128525 / 3)"
  by (simp add: calculate_taxable_profit_def derive_values_def scenario_a_def
      compute_white_payroll_def FIXED_INSURANCE_RUB_def ANNUAL_FIXED_INSURANCE_RUB_def Let_def)

subsection \<open>The tax base and the expense total\<close>

text \<open>
  C1: for every input, the taxable profit is the gross profit minus three groups of
  costs. Group A is rent, subrent, electricity, other utilities and the royalty;
  group B is the white payroll, the aggregator commission, the fixed insurance, the
  acquiring fee, office supplies, other purchases outside Opticom, write-offs, the
  meal compensation and other write-offs; group C is the fourteen remaining fields.
  The payroll total is not among them: changing it alone leaves the tax base of a given
  derived record unchanged. The result of the whole calculation carries this value,
  computed from the derived record it carries.
\<close>

theorem taxable_profit_three_groups:
  "calculate_taxable_profit inp d =
     gross_profit inp
     - (rent inp + subrent inp + electricity inp + other_utilities inp + royalty d)
     - (white_payroll d + aggregator_commission d + fixed_insurance d + acquiring d
        + office_supplies inp + other_purchases_outside_opticom inp + write_offs inp
        + meal_compensation inp + other_write_offs inp)
     - (security inp + internet inp + maintenance inp + other_repairs inp
        + cash_service inp + mobile_connection inp + bank_services inp + uniform inp
        + fiscal_device inp + neo_service inp + garbage_cleaning inp + disinfection inp
        + promo_materials inp + inventory_result inp)
   \<and> calculate_taxable_profit (inp\<lparr>payroll_total := x\<rparr>) d = calculate_taxable_profit inp d
   \<and> (\<exists>r. calculate_all inp = Inr r \<and> derived r = derive_values inp
          \<and> taxable_profit r = calculate_taxable_profit inp (derived r))"
  unfolding calculate_all_returns
  by (simp add: calculate_taxable_profit_def Let_def)

text \<open>
  C2: for every input, the total of the expenses is the sum of the raw cost fields
  (the payroll total, rent, subrent, electricity, other utilities, office supplies,
  other purchases outside Opticom, write-offs, meal compensation, other write-offs,
  security, internet, maintenance, other repairs, cash service, mobile connection, bank
  services, uniform, fiscal device, neo service, garbage cleaning, disinfection, promo
  materials, inventory result) and of the derived royalty, aggregator commission, fixed
  insurance and acquiring fee. The white payroll is not in the sum: the total is the
  same whatever the white payroll of the derived record. The result of the whole
  calculation carries this total, and its profit before tax is the gross profit minus it.
\<close>

theorem expenses_is_sum_of_costs:
  "calculate_expenses inp d =
     payroll_total inp + rent inp + subrent inp + electricity inp + other_utilities inp
     + office_supplies inp + other_purchases_outside_opticom inp + write_offs inp
     + meal_compensation inp + other_write_offs inp + security inp + internet inp
     + maintenance inp + other_repairs inp + cash_service inp + mobile_connection inp
     + bank_services inp + uniform inp + fiscal_device inp + neo_service inp
     + garbage_cleaning inp + disinfection inp + promo_materials inp + inventory_result inp
     + royalty d + aggregator_commission d + fixed_insurance d + acquiring d
   \<and> calculate_expenses inp (d\<lparr>white_payroll := w\<rparr>) = calculate_expenses inp d
   \<and> (\<exists>r. calculate_all inp = Inr r \<and> derived r = derive_values inp
          \<and> expenses r = calculate_expenses inp (derived r)
          \<and> profit_before_tax r = gross_profit inp - expenses r)"
  unfolding calculate_all_returns
  by (simp add: calculate_expenses_def)


subsection \<open>The taxes\<close>

text \<open>
  C3: for every input, the primary tax is the greater of 20 percent of the taxable profit
  and 3 percent of the total turnover. In particular, when the taxable profit is negative
  and the turnover is not, the primary tax is 3 percent of the turnover.
\<close>

theorem ausn_tax_is_max:
  "\<exists>r. calculate_all inp = Inr r
     \<and> ausn_tax r = max (taxable_profit r * 0.20) (turnover_total inp * 0.03)
     \<and> (taxable_profit r < 0 \<and> 0 \<le> turnover_total inp
          \<longrightarrow> ausn_tax r = turnover_total inp * 0.03)"
  unfolding calculate_all_returns by (simp add: max_def)

theorem ausn_tax_is_max_witness:
  "\<exists>r. calculate_all scenario_a = Inr r \<and> taxable_profit r < 0
     \<and> 0 \<le> turnover_total scenario_a \<and> ausn_tax r = 30000"
proof -
  obtain r where r: "calculate_all scenario_a = Inr r"
    and fl: "taxable_profit r < 0 \<and> 0 \<le> turnover_total scenario_a
          \<longrightarrow> ausn_tax r = turnover_total scenario_a * 0.03"
    using ausn_tax_is_max [of scenario_a] by blast
  from r have tp: "taxable_profit r = - (128525 / 3)"
    unfolding calculate_all_returns using scenario_a_taxable_profit by auto
  have tt: "turnover_total scenario_a = 1000000"
    by (simp add: scenario_a_def)
  from fl tp tt have "ausn_tax r = 30000"
    by simp
  with r tp tt show ?thesis
    by simp
qed

text \<open>
  C4: the white payroll is the override when the override is present and strictly
  positive, and 0.33 times the payroll total otherwise: when the override is absent,
  and when it is present and zero or negative. The derivation stage computes the white
  payroll of an input by this rule.
\<close>

theorem white_payroll_override_rule:
  "compute_white_payroll p None = p * 0.33
   \<and> (0 < v \<longrightarrow> compute_white_payroll p (Some v) = v)
   \<and> (v \<le> 0 \<longrightarrow> compute_white_payroll p (Some v) = p * 0.33)
   \<and> white_payroll (derive_values inp)
       = compute_white_payroll (payroll_total inp) (white_payroll_override inp)"
  by (simp add: compute_white_payroll_def derive_values_def)

theorem white_payroll_override_rule_witness:
  "(0::real) < 50000 \<and> compute_white_payroll 120000 (Some 50000) = 50000
   \<and> (-1::real) \<le> 0 \<and> compute_white_payroll 90000 (Some (-1)) = 29700
   \<and> compute_white_payroll 100000 None = 33000
   \<and> white_payroll (derive_values scenario_a) = 66000"
  using white_payroll_override_rule [of 120000 50000 scenario_a]
    white_payroll_override_rule [of 90000 "-1" scenario_a]
    white_payroll_override_rule [of 200000 0 scenario_a]
    white_payroll_override_rule [of 100000 0 scenario_a]
  by (simp add: scenario_a_def)

text \<open>
  C5: for every input, the total tax is the primary tax plus the payroll tax plus the
  fixed insurance, with nothing rounded, and the payroll tax is 0.13 times the white
  payroll.
\<close>

theorem total_tax_is_sum:
  "\<exists>r. calculate_all inp = Inr r
     \<and> total_tax r = ausn_tax r + ndfl_tax r + fixed_insurance (derived r)
     \<and> ndfl_tax r = white_payroll (derived r) * 0.13"
  unfolding calculate_all_returns by simp

text \<open>
  C8: the fixed insurance of the derived record is the constant 2900 / 12 for every
  input, so that any two calculations give the same value.
\<close>

theorem fixed_insurance_constant:
  "FIXED_INSURANCE_RUB = 2900 / 12
   \<and> fixed_insurance (derive_values inp) = 2900 / 12
   \<and> fixed_insurance (derive_values inp) = fixed_insurance (derive_values inp')
   \<and> (\<exists>r. calculate_all inp = Inr r \<and> fixed_insurance (derived r) = 2900 / 12)"
  unfolding calculate_all_returns
  by (simp add: derive_values_def FIXED_INSURANCE_RUB_def ANNUAL_FIXED_INSURANCE_RUB_def)

subsection \<open>The ratios\<close>

text \<open>
  C6: for every input the calculation returns a result and raises nothing. In the
  result, the margin, the profitability and the burden against the turnover are defined
  exactly when the total turnover is above zero, and are then the gross profit, the
  profit before tax and the total tax, each divided by the turnover; the burden against
  the profit is defined exactly when the profit before tax is above zero, and is then
  the total tax divided by it. A ratio that is not defined is \<open>None\<close>, which is no
  number.
\<close>

theorem ratios_guarded:
  "\<exists>r. calculate_all inp = Inr r
     \<and> margin r = (if turnover_total inp > 0
                   then Some (gross_profit inp / turnover_total inp) else None)
     \<and> profitability r = (if turnover_total inp > 0
                   then Some (profit_before_tax r / turnover_total inp) else None)
     \<and> tax_burden_vs_turnover r = (if turnover_total inp > 0
                   then Some (total_tax r / turnover_total inp) else None)
     \<and> tax_burden_vs_profit r = (if profit_before_tax r > 0
                   then Some (total_tax r / profit_before_tax r) else None)"
  unfolding calculate_all_returns by simp

section \<open>Properties of the formatting\<close>

text \<open>
  C9: the money format and the percent format of an absent value are both the single
  character \<^verbatim>\<open>-\<close>; the money format of 1000000.0 is \<^verbatim>\<open>1 000 000\<close>, grouped with
  spaces, the zeros after the point and the point itself trimmed.
\<close>

theorem format_absent_and_million:
  "format_money None = ''-'' \<and> format_percent None = ''-''
   \<and> format_money (Some 1000000) = ''1 000 000''"
  by (simp add: format_money_def format_percent_def format_comma_2f_def round_half_even_def
      group_thousands_def replace_char_def rstrip_def digit_char_def Let_def)

section \<open>Properties of the validation layer\<close>

text \<open>
  C7 says that a form whose aggregator turnover exceeds its total turnover is refused.
  The validator \<^verbatim>\<open>_aggregator_not_more_than_total\<close> raises for such a form, but
  inside its own \<^verbatim>\<open>try\<close>, and the handler swallows the error: the validator returns
  its argument for every value and every earlier field. With a turnover of 100 and an
  aggregator turnover of 200 the form is accepted, and the core is called on inputs
  whose aggregator turnover is above the total.
\<close>

theorem aggregator_over_total_accepted:
  "aggregator_total_try 200 (Some 100) = Inl ValueError
   \<and> aggregator_not_more_than_total v data = Inr v
   \<and> (\<exists>form. validate_CalcForm over_total_payload = Inr form
          \<and> turnover_total_form form = 100 \<and> turnover_aggregator_form form = 200)
   \<and> (\<exists>r. calculate over_total_payload = Inr (Some r)
          \<and> turnover_total (inputs r) < turnover_aggregator (inputs r))"
proof -
  have a: "aggregator_total_try 200 (Some 100) = Inl ValueError"
    by (simp add: aggregator_total_try_def)
  have b: "aggregator_not_more_than_total v data = Inr v"
    by (simp add: aggregator_not_more_than_total_def Let_def split: sum.split)
  have c: "\<exists>form. validate_CalcForm over_total_payload = Inr form
          \<and> turnover_total_form form = 100 \<and> turnover_aggregator_form form = 200"
    by (simp add: validate_CalcForm_def over_total_payload_def Let_def bind_err_def
        float_field_ge0_def float_field_def ge0_def optional_float_field_ge0_def
        turnover_non_negative_def gross_profit_number_def aggregator_not_negative_def
        aggregator_not_more_than_total_def aggregator_total_try_def field_result_def
        data_with_def)
  have d: "\<exists>r. calculate over_total_payload = Inr (Some r)
          \<and> turnover_total (inputs r) < turnover_aggregator (inputs r)"
    by (simp add: calculate_def validate_CalcForm_def over_total_payload_def Let_def
        bind_err_def float_field_ge0_def float_field_def ge0_def
        optional_float_field_ge0_def turnover_non_negative_def gross_profit_number_def
        aggregator_not_negative_def aggregator_not_more_than_total_def
        aggregator_total_try_def field_result_def data_with_def to_inputs_def
        calculate_all_returns)
  from a b c d show ?thesis
    by blast
qed

section \<open>Properties of the calculation in double precision\<close>

declare bit_length.simps [simp del]

lemma bit_length_pos: "0 < n \<Longrightarrow> bit_length n = Suc (bit_length (n div 2))"
  by (subst bit_length.simps) simp

lemma bit_length_bounds:
  "0 < n \<Longrightarrow> 2 ^ (bit_length n - 1) \<le> n \<and> n < 2 ^ bit_length n"
proof (induction n rule: less_induct)
  case (less n)
  show ?case
  proof (cases "n div 2 = 0")
    case True
    with less.prems have n1: "n = 1"
      by presburger
    have "bit_length (Suc 0) = Suc (bit_length 0)"
      using bit_length_pos [of "Suc 0"] by simp
    moreover have "bit_length 0 = 0"
      by (subst bit_length.simps) simp
    ultimately show ?thesis
      using n1 by simp
  next
    case False
    then have lt: "n div 2 < n" and pos2: "0 < n div 2"
      using less.prems by simp_all
    from less.IH [OF lt pos2]
    have ih: "2 ^ (bit_length (n div 2) - 1) \<le> n div 2" "n div 2 < 2 ^ bit_length (n div 2)"
      by simp_all
    have bl: "bit_length n = Suc (bit_length (n div 2))"
      using bit_length_pos [OF less.prems] .
    obtain k where k: "bit_length (n div 2) = Suc k"
      using bit_length_pos [OF pos2] by blast
    from ih k have a: "2 ^ k \<le> n div 2" and b: "n div 2 < 2 * 2 ^ k"
      by simp_all
    from a have "2 * 2 ^ k \<le> n"
      by presburger
    moreover from b have "n < 2 * (2 * 2 ^ k)"
      by presburger
    ultimately show ?thesis
      unfolding bl k by simp
  qed
qed

text \<open>The exponent that the rounding computes is the binary exponent of its argument.\<close>

lemma binary_exponent_bounds:
  assumes "0 < y"
  shows "2 powi (binary_exponent y) \<le> y \<and> y < 2 powi (binary_exponent y + 1)"
proof (cases "1 \<le> y")
  case True
  define n where "n = nat \<lfloor>y\<rfloor>"
  have npos: "0 < n"
    using True by (simp add: n_def)
  have ny: "real n \<le> y" "y < real n + 1"
    using True by (simp_all add: n_def)
  obtain k where k: "bit_length n = Suc k"
    using bit_length_pos [OF npos] by blast
  have e: "binary_exponent y = int k"
    using True by (simp add: binary_exponent_def n_def [symmetric] k)
  from bit_length_bounds [OF npos] k
  have "(2::nat) ^ k \<le> n" "n + 1 \<le> 2 ^ Suc k"
    by simp_all
  then have "(2::real) ^ k \<le> real n" "real n + 1 \<le> 2 ^ Suc k"
    by (metis of_nat_le_iff of_nat_numeral of_nat_power,
        metis of_nat_le_iff of_nat_numeral of_nat_power of_nat_Suc of_nat_add of_nat_1
          Suc_eq_plus1)
  with ny have "(2::real) ^ k \<le> y" "y < 2 ^ Suc k"
    by linarith+
  then show ?thesis
    unfolding e by (simp add: power_int_add)
next
  case False
  define z where "z = 1 / y"
  define m where "m = nat (\<lceil>z\<rceil> - 1)"
  have z1: "1 < z"
    using False assms by (simp add: z_def)
  then have c2: "2 \<le> \<lceil>z\<rceil>"
    by linarith
  then have mpos: "0 < m"
    by (simp add: m_def)
  have mz: "real m < z" "z \<le> real m + 1"
    using c2 by (simp_all add: m_def) linarith+
  obtain k where k: "bit_length m = Suc k"
    using bit_length_pos [OF mpos] by blast
  from bit_length_bounds [OF mpos] k
  have "(2::nat) ^ k \<le> m" "m + 1 \<le> 2 ^ Suc k"
    by simp_all
  then have "(2::real) ^ k \<le> real m" "real m + 1 \<le> 2 ^ Suc k"
    by (metis of_nat_le_iff of_nat_numeral of_nat_power,
        metis of_nat_le_iff of_nat_numeral of_nat_power of_nat_Suc of_nat_add of_nat_1
          Suc_eq_plus1)
  with mz have zb: "(2::real) ^ k < z" "z \<le> 2 ^ Suc k"
    by linarith+
  have e: "binary_exponent y = - int (Suc k)"
    using False by (simp add: binary_exponent_def z_def [symmetric] m_def [symmetric] k)
  have yz: "y = 1 / z"
    using assms by (simp add: z_def)
  have lo: "1 / 2 ^ Suc k \<le> y"
    unfolding yz using zb(2) z1 by (simp add: frac_le)
  have hi: "y < 1 / 2 ^ k"
    unfolding yz using zb(1) by (simp add: frac_less2)
  have p1: "(2::real) powi (- int (Suc k)) = 1 / 2 ^ Suc k"
    by (simp only: power_int_minus power_int_of_nat inverse_eq_divide)
  have "- int (Suc k) + 1 = - int k"
    by simp
  then have p2: "(2::real) powi (- int (Suc k) + 1) = 1 / 2 ^ k"
    by (simp only: power_int_minus power_int_of_nat inverse_eq_divide)
  show ?thesis
    unfolding e p1 p2 using lo hi by simp
qed

text \<open>The rounding moves its argument by half a spacing at most.\<close>

lemma round_half_even_nearest: "\<bar>of_int (round_half_even q) - q\<bar> \<le> 1 / 2"
proof -
  have "of_int \<lfloor>q\<rfloor> \<le> q" "q < of_int \<lfloor>q\<rfloor> + 1"
    by linarith+
  then show ?thesis
    by (auto simp add: round_half_even_def Let_def)
qed

lemma ulp_at_pos: "0 < ulp_at e"
  by (simp add: ulp_at_def)

lemma round_double_nearest:
  "\<bar>round_double x - x\<bar> \<le> ulp_at (max (binary_exponent \<bar>x\<bar>) (- 1022)) / 2"
proof (cases "x = 0")
  case True
  then show ?thesis
    using ulp_at_pos [of "max (binary_exponent \<bar>x\<bar>) (- 1022)"]
    by (simp add: round_double_def)
next
  case False
  define u where "u = ulp_at (max (binary_exponent \<bar>x\<bar>) (- 1022))"
  have upos: "0 < u"
    unfolding u_def by (rule ulp_at_pos)
  have rd: "round_double x = of_int (round_half_even (x / u)) * u"
    using False by (simp add: round_double_def Let_def u_def)
  have "of_int (round_half_even (x / u)) * u - x
      = (of_int (round_half_even (x / u)) - x / u) * u"
    using upos by (simp add: field_simps)
  then have "\<bar>of_int (round_half_even (x / u)) * u - x\<bar>
      = \<bar>of_int (round_half_even (x / u)) - x / u\<bar> * u"
    using upos by (simp only: abs_mult abs_of_pos)
  also have "\<dots> \<le> 1 / 2 * u"
    using round_half_even_nearest [of "x / u"] upos
    by (intro mult_right_mono) simp_all
  finally show ?thesis
    unfolding rd u_def by simp
qed

subsection \<open>The reference input in double precision\<close>









end
